theory Spec2Isabelle
  imports Main
begin

section \<open>RNN rewriter utilities of tf2onnx (tf2onnx/rewriter/rnn_utils.py)\<close>

text \<open>
  The module inspects a dataflow graph of typed nodes, never evaluates an operator, and
  reads the tensors of constant nodes. Python exceptions are values of \<open>py_error\<close>:
  a function that can raise returns \<open>py_error + 'a\<close>, with \<open>Inl\<close> for the exception.
  A Python \<open>None\<close> is \<open>None\<close> of an option type.
\<close>

datatype py_error = IndexError | KeyError | TypeError | ValueError string

subsection \<open>RnnInitializers\<close>

text \<open>
  Input ids are strings (a node name and an output port) or \<open>None\<close>. The constructor
  tests \<open>if c_h_shared_init:\<close>, Python truthiness: \<open>None\<close> and the empty string are
  false, every other string is true.
\<close>

definition truthy :: "string option \<Rightarrow> bool" where
  "truthy x = (case x of None \<Rightarrow> False | Some s \<Rightarrow> s \<noteq> [])"

record RnnInitializers =
  c_init_input_id :: "string option"
  h_init_input_id :: "string option"
  share_init_node :: "bool option"
  share_init_input_id :: "string option"

definition RnnInitializers_init ::
  "string option \<Rightarrow> string option \<Rightarrow> string option \<Rightarrow> RnnInitializers" where
  "RnnInitializers_init c_init h_init c_h_shared_init =
     (let self = \<lparr>c_init_input_id = None, h_init_input_id = None,
                   share_init_node = None, share_init_input_id = None\<rparr>
      in if truthy c_h_shared_init
         then self\<lparr>share_init_input_id := c_h_shared_init, share_init_node := Some True\<rparr>
         else self\<lparr>c_init_input_id := c_init, h_init_input_id := h_init,
                   share_init_node := Some False\<rparr>)"

subsection \<open>Graph nodes\<close>

text \<open>
  A constant tensor as the module reads it: a numpy array of integers, either 0-d
  (\<open>Scalar\<close>) or 1-d (\<open>Vector\<close>). The permutation checks compare such arrays
  with Python lists; the resolver hands the array on unchanged.
\<close>

datatype tensor = Scalar int | Vector "int list"

type_synonym onnx_dtype = nat
type_synonym np_dtype = string

text \<open>
  Modelled from the spec: the class \<open>Node\<close> of \<open>tf2onnx.graph\<close> is not part of the
  sources. Section 3 gives a node a name, an operation-type tag, an ordered sequence of
  inputs and, for constant-producing nodes, an embedded constant tensor with an element
  type. The graph is acyclic, so the producers a node reaches through \<open>inputs\<close>
  form a finite tree.
\<close>

datatype node =
  Node (name: string) (type: string) (inputs: "node list") (dtype: onnx_dtype)
       (const_value: "tensor option")

text \<open>
  Modelled from the spec: \<open>Node.is_const\<close> and \<open>Node.get_tensor_value\<close> are methods
  of the absent class. A node is constant-producing when its type tag is \<open>Const\<close>;
  reading the tensor of any other node, or of a \<open>Const\<close> node with no tensor,
  raises. The text of that exception is not known: the messages here only name the
  cause, and no property depends on them.
\<close>

definition is_const :: "node \<Rightarrow> bool" where
  "is_const n = (type n = ''Const'')"

definition get_tensor_value :: "node \<Rightarrow> py_error + tensor" where
  "get_tensor_value n =
     (if is_const n
      then (case const_value n of
              Some t \<Rightarrow> Inr t
            | None \<Rightarrow> Inl (ValueError (''no tensor value: '' @ name n)))
      else Inl (ValueError (''not a constant: '' @ name n)))"

text \<open>Python's \<open>xs[i]\<close> on a list: IndexError out of range.\<close>

definition getitem :: "'a list \<Rightarrow> nat \<Rightarrow> py_error + 'a" where
  "getitem xs i = (if i < length xs then Inr (xs ! i) else Inl IndexError)"

subsection \<open>Constant resolution through Identity nodes\<close>

datatype log_level = DEBUG | ERROR

type_synonym log_record = "log_level \<times> string"

record RnnWeight =
  node :: node
  value_w :: tensor
  dtype_w :: np_dtype

text \<open>
  The loop \<open>while temp.type == 'Identity': temp = temp.inputs[0]\<close>. An Identity
  node with no input raises IndexError.
\<close>

fun skip_identity :: "node \<Rightarrow> py_error + node" where
  "skip_identity (Node nm ty ins dt cv) =
     (if ty = ''Identity''
      then (case ins of [] \<Rightarrow> Inl IndexError | x # _ \<Rightarrow> skip_identity x)
      else Inr (Node nm ty ins dt cv))"

text \<open>
  \<open>get_weights_from_const_node\<close>. The table \<open>utils.ONNX_TO_NUMPY_DTYPE\<close> is not part
  of the sources and is a parameter: a dictionary, whose lookup raises KeyError on a
  missing key. The result carries the calls made to the logger, in order, and the
  returned value: \<open>None\<close> for the bare \<open>return\<close>, the weight otherwise. In the test
  \<open>temp and temp.type == 'Const'\<close> the node object \<open>temp\<close> is true, as any object is
  that defines no truth value of its own.
\<close>

definition get_weights_from_const_node ::
  "(onnx_dtype \<rightharpoonup> np_dtype) \<Rightarrow> node \<Rightarrow> py_error + (log_record list \<times> RnnWeight option)" where
  "get_weights_from_const_node ONNX_TO_NUMPY_DTYPE n =
     (case skip_identity n of
        Inl e \<Rightarrow> Inl e
      | Inr temp \<Rightarrow>
          if type temp = ''Const''
          then (case get_tensor_value temp of
                  Inl e \<Rightarrow> Inl e
                | Inr val \<Rightarrow>
                    (case ONNX_TO_NUMPY_DTYPE (dtype temp) of
                       None \<Rightarrow> Inl KeyError
                     | Some dt \<Rightarrow>
                         Inr ([(DEBUG, ''found weights '' @ name temp)],
                              Some \<lparr>node = n, value_w = val, dtype_w = dt\<rparr>)))
          else Inr ([(ERROR, ''weight node seems not to be Const, skip, node name is '' @ name temp)],
                    None))"

text \<open>
  The spec's reading of the chain: \<open>identity_chain n c\<close> holds when \<open>c\<close> is the first
  producer that is not an Identity node, reached from \<open>n\<close> through the first inputs of
  zero or more Identity nodes.
\<close>

inductive identity_chain :: "node \<Rightarrow> node \<Rightarrow> bool" where
  chain_end: "type c \<noteq> ''Identity'' \<Longrightarrow> identity_chain c c"
| chain_step: "type n = ''Identity'' \<Longrightarrow> inputs n = x # xs \<Longrightarrow> identity_chain x c
               \<Longrightarrow> identity_chain n c"

subsection \<open>Time-major detection\<close>

text \<open>
  Sequencing of calls that can raise: the first exception ends the computation.
\<close>

definition and_then :: "py_error + 'a \<Rightarrow> ('a \<Rightarrow> py_error + 'b) \<Rightarrow> py_error + 'b" where
  "and_then m f = (case m of Inl e \<Rightarrow> Inl e | Inr x \<Rightarrow> f x)"

text \<open>
  \<open>list(v)\<close> on a numpy array iterates over its first axis; a 0-d array is not
  iterable and raises TypeError.
\<close>

definition py_list :: "tensor \<Rightarrow> py_error + int list" where
  "py_list v = (case v of Scalar _ \<Rightarrow> Inl TypeError | Vector xs \<Rightarrow> Inr xs)"

text \<open>
  The truth value of \<open>v == [k]\<close> for a numpy array \<open>v\<close>: the comparison broadcasts
  against the one-element list and gives an array of booleans of the length of \<open>v\<close>
  (length one for a 0-d array). An array of one element is as true as its element, an
  empty array is false, and an array of more elements has no truth value: ValueError.
\<close>

definition eq_truth :: "tensor \<Rightarrow> int \<Rightarrow> py_error + bool" where
  "eq_truth v k =
     (case v of
        Scalar x \<Rightarrow> Inr (x = k)
      | Vector xs \<Rightarrow>
          (case xs of
             [] \<Rightarrow> Inr False
           | [x] \<Rightarrow> Inr (x = k)
           | _ \<Rightarrow> Inl (ValueError ''The truth value of an array with more than one element is ambiguous. Use a.any() or a.all()'')))"

text \<open>
  \<open>check_is_unfolded_perm\<close>. The three inputs of the second operand and their tensors
  are read before its type is tested; the conjunction \<open>and\<close> stops at its first false
  operand.
\<close>

definition check_is_unfolded_perm :: "node \<Rightarrow> py_error + bool" where
  "check_is_unfolded_perm perm_node =
     (if type perm_node = ''ConcatV2'' \<and> length (inputs perm_node) = 3
      then
        and_then (getitem (inputs perm_node) 0) (\<lambda>const_node.
        and_then (get_tensor_value const_node) (\<lambda>const_node_val.
        and_then (py_list const_node_val) (\<lambda>l.
        if l \<noteq> [1, 0] then Inr False
        else
          and_then (getitem (inputs perm_node) 1) (\<lambda>range_node.
          and_then (getitem (inputs range_node) 0) (\<lambda>n0.
          and_then (get_tensor_value n0) (\<lambda>range_start.
          and_then (getitem (inputs range_node) 1) (\<lambda>n1.
          and_then (get_tensor_value n1) (\<lambda>range_limit.
          and_then (getitem (inputs range_node) 2) (\<lambda>n2.
          and_then (get_tensor_value n2) (\<lambda>range_delta.
          if type range_node \<noteq> ''Range'' then Inr False
          else
            and_then (eq_truth range_start 2) (\<lambda>b0.
            if \<not> b0 then Inr False
            else
              and_then (eq_truth range_limit 3) (\<lambda>b1.
              if \<not> b1 then Inr False
              else
                and_then (eq_truth range_delta 1) (\<lambda>b2.
                Inr b2)))))))))))))
      else Inr False)"

text \<open>
  \<open>check_is_timemajor_transpose\<close>. The result is \<open>Some True\<close> for \<open>return True\<close>
  and \<open>None\<close> for the bare \<open>return\<close>.
\<close>

definition check_is_timemajor_transpose :: "node \<Rightarrow> py_error + bool option" where
  "check_is_timemajor_transpose n =
     (if type n \<noteq> ''Transpose'' then Inr None
      else
        and_then (getitem (inputs n) 1) (\<lambda>perm_node.
        if is_const perm_node
        then
          and_then (getitem (inputs n) 1) (\<lambda>p.
          and_then (get_tensor_value p) (\<lambda>v.
          and_then (py_list v) (\<lambda>l.
          if l = [1, 0, 2] then Inr (Some True) else Inr None)))
        else
          and_then (check_is_unfolded_perm perm_node) (\<lambda>b.
          if b then Inr (Some True) else Inl (ValueError ''Not supported yet''))))"

text \<open>A constant node whose tensor is the single value \<open>k\<close>, 0-d or 1-d.\<close>

definition holds_value :: "node \<Rightarrow> int \<Rightarrow> bool" where
  "holds_value n k =
     (get_tensor_value n = Inr (Scalar k) \<or> get_tensor_value n = Inr (Vector [k]))"

text \<open>A producer whose first three inputs exist and have readable constant tensors.\<close>

definition three_const_inputs :: "node \<Rightarrow> bool" where
  "three_const_inputs r =
     (case inputs r of
        s # l # d # _ \<Rightarrow>
          isl (get_tensor_value s) = False \<and> isl (get_tensor_value l) = False \<and>
          isl (get_tensor_value d) = False
      | _ \<Rightarrow> False)"

text \<open>
  The indirect form of a permutation as the spec words it (section 4.4), read off the
  shape of the graph and not off the heuristic: a ConcatV2 of two operands and an axis
  whose first operand is a constant equal to \<open>[1, 0]\<close> and whose second operand is a
  Range node with start, limit and step constants 2, 3 and 1.
\<close>

definition unfolded_form :: "node \<Rightarrow> bool" where
  "unfolded_form p =
     (type p = ''ConcatV2'' \<and>
      (case inputs p of
         [c, r, axis] \<Rightarrow>
           type c = ''Const'' \<and> const_value c = Some (Vector [1, 0]) \<and>
           type r = ''Range'' \<and>
           (case inputs r of
              s # l # d # _ \<Rightarrow> holds_value s 2 \<and> holds_value l 3 \<and> holds_value d 1
            | _ \<Rightarrow> False)
       | _ \<Rightarrow> False))"

subsection \<open>Cell patterns\<close>

text \<open>
  Modelled from the spec: the class \<open>OpTypePattern\<close> of \<open>tf2onnx.graph_matcher\<close> is
  not part of the sources. Section 3 gives a pattern node a type matcher (an exact type,
  the wildcard \<open>*\<close> or an alternation \<open>A|B\<close>), an optional capture name and an
  ordered list of child patterns.

  Pattern objects live in a store and are referred to by address, the position at which
  they were allocated: two references to one object are equal addresses, two objects
  built alike are not.
\<close>

type_synonym addr = nat

record OpTypePattern =
  op_type :: string
  capture :: "string option"
  children :: "addr list"

type_synonym store = "OpTypePattern list"

text \<open>
  A constructor expression of the module: \<open>New\<close> is a call of \<open>OpTypePattern\<close>,
  \<open>Ref\<close> a use of a variable bound to an object built before. Python evaluates the
  arguments of a call from left to right before the call allocates its object.
\<close>

datatype pattern_expr = New string "string option" "pattern_expr list" | Ref addr

fun build :: "pattern_expr \<Rightarrow> store \<Rightarrow> addr \<times> store"
  and build_list :: "pattern_expr list \<Rightarrow> store \<Rightarrow> addr list \<times> store" where
  "build (Ref a) h = (a, h)"
| "build (New t nm args) h =
     (case build_list args h of
        (as, h') \<Rightarrow> (length h', h' @ [\<lparr>op_type = t, capture = nm, children = as\<rparr>]))"
| "build_list [] h = ([], h)"
| "build_list (e # es) h =
     (case build e h of
        (a, h1) \<Rightarrow> (case build_list es h1 of (as, h2) \<Rightarrow> (a # as, h2)))"

definition xc_pattern_expr :: pattern_expr where
  "xc_pattern_expr =
     New ''Split'' None [
       New ''Const'' None [],
       New ''BiasAdd'' (Some ''bias_add'') [
         New ''MatMul'' None [
           New ''ConcatV2|Concat'' (Some ''xh'') [],
           New ''Enter'' None [
             New ''*'' (Some ''cell_kernel'') []]],
         New ''Enter'' None [
           New ''*'' (Some ''cell_bias'') []]]]"

definition xc_pattern :: addr where
  "xc_pattern = fst (build xc_pattern_expr [])"

definition xc_store :: store where
  "xc_store = snd (build xc_pattern_expr [])"

definition lstmcell_pattern_expr :: pattern_expr where
  "lstmcell_pattern_expr =
     New ''Mul'' (Some ''ht'') [
       New ''Sigmoid'' (Some ''ot'') [Ref xc_pattern],
       New ''Tanh'' None [
         New ''Add'' (Some ''ct'') [
           New ''Mul'' None [
             New ''Sigmoid'' (Some ''ft'') [
               New ''Add'' None [
                 Ref xc_pattern,
                 New ''*'' (Some ''ft_bias'') []]],
             New ''*'' None []],
           New ''Mul'' None [
             New ''Sigmoid'' (Some ''it'') [Ref xc_pattern],
             New ''Tanh'' (Some ''gt'') [Ref xc_pattern]]]]]"

definition lstmcell_pattern :: addr where
  "lstmcell_pattern = fst (build lstmcell_pattern_expr xc_store)"

text \<open>The pattern objects of the module once it is loaded.\<close>

definition pattern_store :: store where
  "pattern_store = snd (build lstmcell_pattern_expr xc_store)"

text \<open>The addresses of the objects with a given capture name, and with a given type.\<close>

definition captured :: "string \<Rightarrow> addr list" where
  "captured nm = filter (\<lambda>a. capture (pattern_store ! a) = Some nm) [0..<length pattern_store]"

definition of_type :: "string \<Rightarrow> addr list" where
  "of_type t = filter (\<lambda>a. op_type (pattern_store ! a) = t) [0..<length pattern_store]"

text \<open>
  A pattern read as a tree from an address, for comparing shapes: sharing is not
  visible in the tree. Children are always allocated before their parent, so the
  address itself bounds the depth.
\<close>

datatype pattern_tree = Pattern string "string option" "pattern_tree list"

fun unfold_to :: "nat \<Rightarrow> store \<Rightarrow> addr \<Rightarrow> pattern_tree" where
  "unfold_to 0 h a = Pattern (op_type (h ! a)) (capture (h ! a)) []"
| "unfold_to (Suc k) h a =
     Pattern (op_type (h ! a)) (capture (h ! a)) (map (unfold_to k h) (children (h ! a)))"

definition tree_at :: "addr \<Rightarrow> pattern_tree" where
  "tree_at a = unfold_to a pattern_store a"

text \<open>The addresses a pattern reaches through its children, itself included.\<close>

fun reach_to :: "nat \<Rightarrow> store \<Rightarrow> addr \<Rightarrow> addr list" where
  "reach_to 0 h a = [a]"
| "reach_to (Suc k) h a = a # concat (map (reach_to k h) (children (h ! a)))"

definition reaches :: "addr \<Rightarrow> addr \<Rightarrow> bool" where
  "reaches a b = (b \<in> set (reach_to a pattern_store a))"

datatype RNNUnitType = LSTMCell | GRUCell

definition rnn_cell_patterns :: "(RNNUnitType \<times> addr option) list" where
  "rnn_cell_patterns = [(LSTMCell, Some lstmcell_pattern), (GRUCell, None)]"

definition get_pattern :: "RNNUnitType \<Rightarrow> py_error + addr option" where
  "get_pattern cell_type_name =
     (case map_of rnn_cell_patterns cell_type_name of
        None \<Rightarrow> Inl KeyError
      | Some p \<Rightarrow> Inr p)"

subsection \<open>The GRU test (tests/test_gru.py)\<close>

text \<open>A test passes when it returns and fails when it raises.\<close>

definition test_test_single_dynamic_gru_state_is_tuple :: "py_error + unit" where
  "test_test_single_dynamic_gru_state_is_tuple = Inl (ValueError ''Not implemented'')"

definition GRUTests :: "(string \<times> (py_error + unit)) list" where
  "GRUTests =
     [(''test_test_single_dynamic_gru_state_is_tuple'',
       test_test_single_dynamic_gru_state_is_tuple)]"

subsection \<open>Example graphs\<close>

definition example_table :: "onnx_dtype \<rightharpoonup> np_dtype" where
  "example_table = map_of [(1, ''float32''), (6, ''int32''), (7, ''int64'')]"

definition example_const :: node where
  "example_const = Node ''w'' ''Const'' [] 1 (Some (Vector [1, 2, 3]))"

definition example_placeholder :: node where
  "example_placeholder = Node ''x'' ''Placeholder'' [] 1 None"

definition identity_of :: "string \<Rightarrow> node \<Rightarrow> node" where
  "identity_of nm x = Node nm ''Identity'' [x] (dtype x) None"

definition const_of :: "string \<Rightarrow> tensor \<Rightarrow> node" where
  "const_of nm v = Node nm ''Const'' [] 6 (Some v)"

definition range_of :: "int \<Rightarrow> int \<Rightarrow> int \<Rightarrow> node" where
  "range_of s l d =
     Node ''range'' ''Range''
       [const_of ''start'' (Scalar s), const_of ''limit'' (Scalar l), const_of ''delta'' (Scalar d)]
       6 None"

definition concat_of :: "node \<Rightarrow> node \<Rightarrow> node" where
  "concat_of a b = Node ''concat'' ''ConcatV2'' [a, b, const_of ''axis'' (Scalar 0)] 6 None"

definition transpose_of :: "node \<Rightarrow> node" where
  "transpose_of perm = Node ''transpose'' ''Transpose'' [example_placeholder, perm] 1 None"

section \<open>Properties\<close>

subsection \<open>RnnInitializers\<close>

text \<open>
  C9. A freshly constructed RnnInitializers object has exactly one initial-state form
  populated. When a shared initializer id is given (a non-empty id), the object is
  \<open>share_init_node = True\<close>, \<open>share_init_input_id\<close> the given id, and both split ids
  \<open>None\<close>. When none is given (\<open>None\<close>), the object is \<open>share_init_node = False\<close>,
  \<open>share_init_input_id = None\<close>, and the split ids are the given \<open>c_init\<close> and
  \<open>h_init\<close>. For every argument the result is one of these two forms, and
  \<open>share_init_node\<close> is never left \<open>None\<close>.
\<close>

theorem RnnInitializers_one_form:
  "(c_h_shared_init = Some i \<and> i \<noteq> [] \<longrightarrow>
      RnnInitializers_init c_init h_init c_h_shared_init =
        \<lparr>c_init_input_id = None, h_init_input_id = None,
         share_init_node = Some True, share_init_input_id = Some i\<rparr>) \<and>
   (c_h_shared_init = None \<longrightarrow>
      RnnInitializers_init c_init h_init c_h_shared_init =
        \<lparr>c_init_input_id = c_init, h_init_input_id = h_init,
         share_init_node = Some False, share_init_input_id = None\<rparr>) \<and>
   (let r = RnnInitializers_init c_init h_init c_h_shared_init in
      (share_init_node r = Some True \<and> share_init_input_id r = c_h_shared_init \<and>
       share_init_input_id r \<noteq> None \<and>
       c_init_input_id r = None \<and> h_init_input_id r = None) \<noteq>
      (share_init_node r = Some False \<and> share_init_input_id r = None \<and>
       c_init_input_id r = c_init \<and> h_init_input_id r = h_init))"
  by (cases c_h_shared_init) (auto simp: RnnInitializers_init_def truthy_def Let_def)

theorem RnnInitializers_one_form_witness:
  "RnnInitializers_init None None (Some ''init:0'') =
     \<lparr>c_init_input_id = None, h_init_input_id = None,
      share_init_node = Some True, share_init_input_id = Some ''init:0''\<rparr> \<and>
   RnnInitializers_init (Some ''c:0'') (Some ''h:0'') None =
     \<lparr>c_init_input_id = Some ''c:0'', h_init_input_id = Some ''h:0'',
      share_init_node = Some False, share_init_input_id = None\<rparr>"
  using RnnInitializers_one_form [of "Some ''init:0''" "''init:0''" None None]
        RnnInitializers_one_form [of None "''x''" "Some ''c:0''" "Some ''h:0''"]
  by simp

subsection \<open>Constant resolution\<close>

lemma skip_identity_chain: "identity_chain n c \<Longrightarrow> skip_identity n = Inr c"
proof (induction rule: identity_chain.induct)
  case (chain_end c)
  then show ?case by (cases c) simp
next
  case (chain_step n x xs c)
  then show ?case by (cases n) simp
qed

lemma skip_identity_sound: "skip_identity n = Inr c \<Longrightarrow> identity_chain n c"
proof (induction n rule: skip_identity.induct)
  case (1 nm ty ins dt cv)
  show ?case
  proof (cases "ty = ''Identity''")
    case False
    with "1.prems" show ?thesis by (auto intro: identity_chain.chain_end)
  next
    case True
    with "1.prems" obtain x xs where ins: "ins = x # xs" and sk: "skip_identity x = Inr c"
      by (cases ins) auto
    from "1.IH" [OF True ins sk] True ins show ?thesis
      by (auto intro: identity_chain.chain_step)
  qed
qed

text \<open>
  C4. From the head of a chain of zero or more Identity nodes the resolver reaches the
  first producer \<open>c\<close> that is not an Identity node. When \<open>c\<close> is a Const node holding
  a tensor whose element type is a key of the type-mapping table, the resolver returns
  that tensor and the table's translation of the element type. When \<open>c\<close> is not a
  Const node the resolver does not raise: it logs one error naming \<open>c\<close> and returns
  \<open>None\<close>.
\<close>

theorem get_weights_from_const_node_chain:
  assumes "identity_chain n c"
  shows "(type c = ''Const'' \<and> const_value c = Some v \<and> tbl (dtype c) = Some d \<longrightarrow>
            get_weights_from_const_node tbl n =
              Inr ([(DEBUG, ''found weights '' @ name c)],
                   Some \<lparr>node = n, value_w = v, dtype_w = d\<rparr>)) \<and>
         (type c \<noteq> ''Const'' \<longrightarrow>
            get_weights_from_const_node tbl n =
              Inr ([(ERROR, ''weight node seems not to be Const, skip, node name is '' @ name c)],
                   None))"
  using skip_identity_chain [OF assms]
  by (simp add: get_weights_from_const_node_def get_tensor_value_def is_const_def)

theorem get_weights_from_const_node_chain_witness:
  "get_weights_from_const_node example_table
     (identity_of ''i3'' (identity_of ''i2'' (identity_of ''i1'' example_const)))
     = Inr ([(DEBUG, ''found weights w'')],
            Some \<lparr>node = identity_of ''i3'' (identity_of ''i2'' (identity_of ''i1'' example_const)),
                  value_w = Vector [1, 2, 3], dtype_w = ''float32''\<rparr>) \<and>
   get_weights_from_const_node example_table
     (identity_of ''i3'' (identity_of ''i2'' (identity_of ''i1'' example_placeholder)))
     = Inr ([(ERROR, ''weight node seems not to be Const, skip, node name is x'')], None)"
proof -
  have step: "identity_chain (identity_of a x) c" if "identity_chain x c" for a x c
    by (rule identity_chain.chain_step [OF _ _ that]) (simp_all add: identity_of_def)
  have chain: "type c \<noteq> ''Identity'' \<Longrightarrow>
      identity_chain (identity_of ''i3'' (identity_of ''i2'' (identity_of ''i1'' c))) c" for c
    by (intro step identity_chain.chain_end)
  have c1: "identity_chain
      (identity_of ''i3'' (identity_of ''i2'' (identity_of ''i1'' example_const))) example_const"
    by (rule chain) (simp add: example_const_def)
  have c2: "identity_chain
      (identity_of ''i3'' (identity_of ''i2'' (identity_of ''i1'' example_placeholder)))
      example_placeholder"
    by (rule chain) (simp add: example_placeholder_def)
  have t: "example_table (dtype example_const) = Some ''float32''"
    by (simp add: example_table_def example_const_def)
  from get_weights_from_const_node_chain [OF c1, of "Vector [1, 2, 3]" example_table "''float32''"]
       get_weights_from_const_node_chain [OF c2, of "Vector [1, 2, 3]" example_table "''float32''"]
       t
  show ?thesis
    by (simp add: example_const_def example_placeholder_def)
qed

text \<open>
  C10. On success the returned RnnWeight holds the node that was passed in, the head of
  the Identity chain, in its \<open>node\<close> field; its value and element type are those of
  the Const node \<open>c\<close> at the end of the chain, so that \<open>node\<close> differs from \<open>c\<close>
  as soon as the chain has one Identity node.
\<close>

theorem get_weights_from_const_node_keeps_head:
  assumes "get_weights_from_const_node tbl n = Inr (lg, Some w)"
  shows "node w = n \<and>
         (\<exists>c. identity_chain n c \<and> type c = ''Const'' \<and>
              const_value c = Some (value_w w) \<and> tbl (dtype c) = Some (dtype_w w) \<and>
              (type n = ''Identity'' \<longrightarrow> node w \<noteq> c))"
proof -
  from assms obtain c where sk: "skip_identity n = Inr c"
    by (cases "skip_identity n") (simp_all add: get_weights_from_const_node_def)
  from assms sk have ty: "type c = ''Const''"
    by (auto simp: get_weights_from_const_node_def split: if_splits)
  from assms sk ty obtain v where gv: "get_tensor_value c = Inr v"
    by (cases "get_tensor_value c") (simp_all add: get_weights_from_const_node_def)
  from assms sk ty gv obtain d where td: "tbl (dtype c) = Some d"
    by (cases "tbl (dtype c)") (simp_all add: get_weights_from_const_node_def)
  from assms sk ty gv td have w: "w = \<lparr>node = n, value_w = v, dtype_w = d\<rparr>"
    by (simp add: get_weights_from_const_node_def)
  from gv ty have cv: "const_value c = Some v"
    by (auto simp: get_tensor_value_def is_const_def split: option.splits)
  from skip_identity_sound [OF sk] ty cv td w show ?thesis
    by auto
qed

theorem get_weights_from_const_node_keeps_head_witness:
  "get_weights_from_const_node example_table (identity_of ''i1'' example_const) =
     Inr ([(DEBUG, ''found weights w'')],
          Some \<lparr>node = identity_of ''i1'' example_const, value_w = Vector [1, 2, 3],
                dtype_w = ''float32''\<rparr>) \<and>
   node \<lparr>node = identity_of ''i1'' example_const, value_w = Vector [1, 2, 3],
         dtype_w = ''float32''\<rparr> \<noteq> example_const"
proof -
  have r: "get_weights_from_const_node example_table (identity_of ''i1'' example_const) =
     Inr ([(DEBUG, ''found weights w'')],
          Some \<lparr>node = identity_of ''i1'' example_const, value_w = Vector [1, 2, 3],
                dtype_w = ''float32''\<rparr>)"
    by (simp add: get_weights_from_const_node_def get_tensor_value_def is_const_def
        identity_of_def example_const_def example_table_def)
  from get_weights_from_const_node_keeps_head [OF r] r show ?thesis
    by (auto simp: identity_of_def example_const_def)
qed

subsection \<open>Time-major detection\<close>

lemma and_then_Inl: "and_then (Inl e) f = Inl e"
  by (simp add: and_then_def)

lemma and_then_Inr: "and_then (Inr x) f = f x"
  by (simp add: and_then_def)

lemma and_then_eq_Inr:
  "and_then m f = Inr y \<longleftrightarrow> (\<exists>x. m = Inr x \<and> f x = Inr y)"
  by (cases m) (simp_all add: and_then_def)

lemma getitem_Cons0: "getitem (x # xs) 0 = Inr x"
  by (simp add: getitem_def)

lemma getitem_Cons1: "getitem (x # y # xs) (Suc 0) = Inr y"
  by (simp add: getitem_def)

lemma getitem_Cons2: "getitem (x # y # z # xs) 2 = Inr z"
  by (simp add: getitem_def)

lemma getitem_1_Inr: "getitem xs (Suc 0) = Inr p \<longleftrightarrow> (\<exists>x rest. xs = x # p # rest)"
proof (cases xs)
  case Nil
  then show ?thesis by (simp add: getitem_def)
next
  case (Cons a ys)
  then show ?thesis by (cases ys) (auto simp: getitem_def)
qed

lemma unfolded_perm_True_type:
  "check_is_unfolded_perm p = Inr True \<Longrightarrow> type p = ''ConcatV2''"
  by (auto simp: check_is_unfolded_perm_def split: if_splits)

lemma unfolded_perm_not_const:
  "check_is_unfolded_perm p = Inr True \<Longrightarrow> \<not> is_const p"
  by (drule unfolded_perm_True_type) (simp add: is_const_def)

lemma holds_value_eq_truth:
  "holds_value n k \<Longrightarrow> \<exists>v. get_tensor_value n = Inr v \<and> eq_truth v k = Inr True"
  by (auto simp: holds_value_def eq_truth_def)

lemma timemajor_const:
  assumes "type n = ''Transpose''" "inputs n = x # perm # rest" "is_const perm"
  shows "check_is_timemajor_transpose n =
           and_then (get_tensor_value perm) (\<lambda>v. and_then (py_list v) (\<lambda>l.
             if l = [1, 0, 2] then Inr (Some True) else Inr None))"
  using assms by (simp add: check_is_timemajor_transpose_def getitem_Cons1 and_then_Inr)

lemma timemajor_not_const:
  assumes "type n = ''Transpose''" "inputs n = x # perm # rest" "\<not> is_const perm"
  shows "check_is_timemajor_transpose n =
           and_then (check_is_unfolded_perm perm) (\<lambda>b.
             if b then Inr (Some True) else Inl (ValueError ''Not supported yet''))"
  using assms by (simp add: check_is_timemajor_transpose_def getitem_Cons1 and_then_Inr)

text \<open>
  C1, as amended. For every Transpose node whose permutation input is a constant holding
  a 1-d tensor other than \<open>[1, 0, 2]\<close>, \<open>check_is_timemajor_transpose\<close> raises
  nothing: it takes the bare \<open>return\<close> and its result is \<open>None\<close>, which a caller
  reads as not time-major.
\<close>

theorem timemajor_other_constant_perm:
  assumes "type n = ''Transpose''" and "inputs n = x # perm # rest"
    and "get_tensor_value perm = Inr (Vector xs)" and "xs \<noteq> [1, 0, 2]"
  shows "check_is_timemajor_transpose n = Inr None"
proof -
  from assms(3) have "is_const perm"
    by (auto simp: get_tensor_value_def split: if_splits)
  from timemajor_const [OF assms(1,2) this] assms(3,4) show ?thesis
    by (simp add: and_then_Inr py_list_def)
qed

theorem timemajor_other_constant_perm_witness:
  "check_is_timemajor_transpose (transpose_of (const_of ''perm'' (Vector [1, 0]))) = Inr None"
  using timemajor_other_constant_perm
    [of "transpose_of (const_of ''perm'' (Vector [1, 0]))" example_placeholder
        "const_of ''perm'' (Vector [1, 0])" "[]" "[1, 0]"]
  by (simp add: transpose_of_def const_of_def get_tensor_value_def is_const_def)

text \<open>
  The claim as stated asks for an error there. A Transpose whose constant permutation is
  \<open>[0, 2, 1]\<close> returns \<open>None\<close> and raises nothing.
\<close>

theorem timemajor_other_constant_perm_counterexample:
  "type (transpose_of (const_of ''perm'' (Vector [0, 2, 1]))) = ''Transpose'' \<and>
   inputs (transpose_of (const_of ''perm'' (Vector [0, 2, 1]))) =
     [example_placeholder, const_of ''perm'' (Vector [0, 2, 1])] \<and>
   is_const (const_of ''perm'' (Vector [0, 2, 1])) \<and>
   get_tensor_value (const_of ''perm'' (Vector [0, 2, 1])) = Inr (Vector [0, 2, 1]) \<and>
   check_is_timemajor_transpose (transpose_of (const_of ''perm'' (Vector [0, 2, 1]))) = Inr None"
  by (simp add: check_is_timemajor_transpose_def transpose_of_def const_of_def
      get_tensor_value_def is_const_def getitem_def and_then_def py_list_def)

text \<open>
  C2. For every ConcatV2 node of two operands and an axis whose first operand is a
  constant equal to \<open>[1, 0]\<close> and whose second operand is a Range node with constant
  start 2, limit 3 and step 1, \<open>check_is_unfolded_perm\<close> returns true, and every
  Transpose node that has this node as its permutation input is reported time-major by
  \<open>check_is_timemajor_transpose\<close>.
\<close>

theorem unfolded_perm_recognised:
  assumes "type p = ''ConcatV2''" and "inputs p = [c, r, axis]"
    and "get_tensor_value c = Inr (Vector [1, 0])"
    and "type r = ''Range''" and "inputs r = [s, l, d]"
    and "holds_value s 2" and "holds_value l 3" and "holds_value d 1"
  shows "check_is_unfolded_perm p = Inr True \<and>
         (type t = ''Transpose'' \<and> inputs t = x # p # rest \<longrightarrow>
            check_is_timemajor_transpose t = Inr (Some True))"
proof -
  from holds_value_eq_truth [OF assms(6)] obtain vs
    where vs: "get_tensor_value s = Inr vs" "eq_truth vs 2 = Inr True" by blast
  from holds_value_eq_truth [OF assms(7)] obtain vl
    where vl: "get_tensor_value l = Inr vl" "eq_truth vl 3 = Inr True" by blast
  from holds_value_eq_truth [OF assms(8)] obtain vd
    where vd: "get_tensor_value d = Inr vd" "eq_truth vd 1 = Inr True" by blast
  have u: "check_is_unfolded_perm p = Inr True"
    using assms(1-5) vs vl vd
    by (simp add: check_is_unfolded_perm_def getitem_Cons0 getitem_Cons1 getitem_Cons2
        and_then_Inr py_list_def)
  have "check_is_timemajor_transpose t = Inr (Some True)"
    if "type t = ''Transpose''" "inputs t = x # p # rest"
    using timemajor_not_const [OF that unfolded_perm_not_const [OF u]] u
    by (simp add: and_then_Inr)
  with u show ?thesis by blast
qed

theorem unfolded_perm_recognised_witness:
  "check_is_unfolded_perm (concat_of (const_of ''prefix'' (Vector [1, 0])) (range_of 2 3 1)) = Inr True \<and>
   check_is_timemajor_transpose
     (transpose_of (concat_of (const_of ''prefix'' (Vector [1, 0])) (range_of 2 3 1))) = Inr (Some True)"
  using unfolded_perm_recognised
    [of "concat_of (const_of ''prefix'' (Vector [1, 0])) (range_of 2 3 1)"
        "const_of ''prefix'' (Vector [1, 0])" "range_of 2 3 1" "const_of ''axis'' (Scalar 0)"
        "const_of ''start'' (Scalar 2)" "const_of ''limit'' (Scalar 3)" "const_of ''delta'' (Scalar 1)"
        "transpose_of (concat_of (const_of ''prefix'' (Vector [1, 0])) (range_of 2 3 1))"
        example_placeholder "[]"]
  by (simp add: concat_of_def range_of_def const_of_def transpose_of_def holds_value_def
      get_tensor_value_def is_const_def)

lemma unfolded_perm_wrong_range:
  assumes "type p = ''ConcatV2''" and "inputs p = [c, r, axis]"
    and "get_tensor_value c = Inr (Vector [1, 0])"
    and "type r = ''Range''" and "inputs r = [s, l, d]"
    and "holds_value s 0" and "holds_value l 5" and "holds_value d 1"
  shows "check_is_unfolded_perm p = Inr False"
proof -
  from assms(6) obtain vs where vs: "get_tensor_value s = Inr vs" "eq_truth vs 2 = Inr False"
    by (auto simp: holds_value_def eq_truth_def)
  from assms(7) obtain vl where vl: "get_tensor_value l = Inr vl"
    by (auto simp: holds_value_def)
  from assms(8) obtain vd where vd: "get_tensor_value d = Inr vd"
    by (auto simp: holds_value_def)
  show ?thesis
    using assms(1-5) vs vl vd
    by (simp add: check_is_unfolded_perm_def getitem_Cons0 getitem_Cons1 getitem_Cons2
        and_then_Inr py_list_def)
qed

lemma get_tensor_value_Inr:
  "get_tensor_value n = Inr v \<longleftrightarrow> type n = ''Const'' \<and> const_value n = Some v"
  by (auto simp: get_tensor_value_def is_const_def split: option.splits)

lemma eq_truth_True: "eq_truth v k = Inr True \<longleftrightarrow> v = Scalar k \<or> v = Vector [k]"
proof (cases v)
  case (Scalar x)
  then show ?thesis by (auto simp: eq_truth_def)
next
  case (Vector xs)
  then show ?thesis by (auto simp: eq_truth_def split: list.splits)
qed

lemma getitem_three:
  assumes "getitem xs 0 = Inr a" and "getitem xs (Suc 0) = Inr b" and "getitem xs 2 = Inr c"
  shows "\<exists>rest. xs = a # b # c # rest"
proof -
  from assms(3) have "2 < length xs"
    by (auto simp: getitem_def split: if_splits)
  then obtain a' b' c' rest where xs: "xs = a' # b' # c' # rest"
    by (cases xs; cases "tl xs"; cases "tl (tl xs)") auto
  with assms show ?thesis
    by (simp add: getitem_def)
qed

lemma unfolded_perm_operands:
  assumes "type p = ''ConcatV2''" and "inputs p = [c, r, axis]"
  shows "check_is_unfolded_perm p =
          and_then (get_tensor_value c) (\<lambda>const_node_val.
          and_then (py_list const_node_val) (\<lambda>l.
          if l \<noteq> [1, 0] then Inr False
          else
          and_then (getitem (inputs r) 0) (\<lambda>n0.
          and_then (get_tensor_value n0) (\<lambda>range_start.
          and_then (getitem (inputs r) 1) (\<lambda>n1.
          and_then (get_tensor_value n1) (\<lambda>range_limit.
          and_then (getitem (inputs r) 2) (\<lambda>n2.
          and_then (get_tensor_value n2) (\<lambda>range_delta.
          if type r \<noteq> ''Range'' then Inr False
          else
            and_then (eq_truth range_start 2) (\<lambda>b0.
            if \<not> b0 then Inr False
            else
              and_then (eq_truth range_limit 3) (\<lambda>b1.
              if \<not> b1 then Inr False
              else
                and_then (eq_truth range_delta 1) (\<lambda>b2.
                Inr b2)))))))))))"
  using assms
  by (simp add: check_is_unfolded_perm_def getitem_Cons0 getitem_Cons1 and_then_Inr
      cong del: if_weak_cong)

lemma unfolded_perm_iff_form:
  "check_is_unfolded_perm p = Inr True \<longleftrightarrow> unfolded_form p"
proof
  assume r: "check_is_unfolded_perm p = Inr True"
  then have ty: "type p = ''ConcatV2''" and len: "length (inputs p) = 3"
    by (auto simp: check_is_unfolded_perm_def split: if_splits)
  from len obtain c r' axis where i: "inputs p = [c, r', axis]"
    by (cases "inputs p"; cases "tl (inputs p)"; cases "tl (tl (inputs p))") auto
  from r unfolded_perm_operands [OF ty i] obtain v l where
    v: "get_tensor_value c = Inr v" and l: "py_list v = Inr l" and
    rest: "(if l \<noteq> [1, 0] then Inr False
          else
          and_then (getitem (inputs r') 0) (\<lambda>n0.
          and_then (get_tensor_value n0) (\<lambda>range_start.
          and_then (getitem (inputs r') 1) (\<lambda>n1.
          and_then (get_tensor_value n1) (\<lambda>range_limit.
          and_then (getitem (inputs r') 2) (\<lambda>n2.
          and_then (get_tensor_value n2) (\<lambda>range_delta.
          if type r' \<noteq> ''Range'' then Inr False
          else
            and_then (eq_truth range_start 2) (\<lambda>b0.
            if \<not> b0 then Inr False
            else
              and_then (eq_truth range_limit 3) (\<lambda>b1.
              if \<not> b1 then Inr False
              else
                and_then (eq_truth range_delta 1) (\<lambda>b2.
                Inr b2)))))))))) = Inr True"
    by (auto simp: and_then_eq_Inr)
  from rest have l10: "l = [1, 0]"
    by (auto split: if_splits)
  with l have vv: "v = Vector [1, 0]"
    by (cases v) (simp_all add: py_list_def)
  from rest l10 obtain n0 vs n1 vl n2 vd where
    g0: "getitem (inputs r') 0 = Inr n0" and t0: "get_tensor_value n0 = Inr vs" and
    g1: "getitem (inputs r') (Suc 0) = Inr n1" and t1: "get_tensor_value n1 = Inr vl" and
    g2: "getitem (inputs r') 2 = Inr n2" and t2: "get_tensor_value n2 = Inr vd" and
    tail: "(if type r' \<noteq> ''Range'' then Inr False
          else
            and_then (eq_truth vs 2) (\<lambda>b0.
            if \<not> b0 then Inr False
            else
              and_then (eq_truth vl 3) (\<lambda>b1.
              if \<not> b1 then Inr False
              else
                and_then (eq_truth vd 1) (\<lambda>b2.
                Inr b2)))) = Inr True"
    by (auto simp: and_then_eq_Inr)
  from tail have tr: "type r' = ''Range''"
    by (auto split: if_splits)
  with tail have e: "eq_truth vs 2 = Inr True" "eq_truth vl 3 = Inr True" "eq_truth vd 1 = Inr True"
    by (auto simp: and_then_eq_Inr split: if_splits)
  from getitem_three [OF g0 g1 g2] obtain more where ir: "inputs r' = n0 # n1 # n2 # more"
    by blast
  from e t0 t1 t2 have "holds_value n0 2" "holds_value n1 3" "holds_value n2 1"
    by (auto simp: holds_value_def eq_truth_True)
  with ty i v vv tr ir show "unfolded_form p"
    by (simp add: unfolded_form_def get_tensor_value_Inr)
next
  assume f: "unfolded_form p"
  then have ty: "type p = ''ConcatV2''"
    by (simp add: unfolded_form_def)
  from f obtain c r' axis where i: "inputs p = [c, r', axis]"
    by (auto simp: unfolded_form_def split: list.splits)
  from f i have c: "get_tensor_value c = Inr (Vector [1, 0])" and tr: "type r' = ''Range''"
    by (simp_all add: unfolded_form_def get_tensor_value_Inr)
  from f i obtain s l d more where ir: "inputs r' = s # l # d # more"
    and h: "holds_value s 2" "holds_value l 3" "holds_value d 1"
    by (auto simp: unfolded_form_def split: list.splits)
  from holds_value_eq_truth [OF h(1)] obtain vs
    where vs: "get_tensor_value s = Inr vs" "eq_truth vs 2 = Inr True" by blast
  from holds_value_eq_truth [OF h(2)] obtain vl
    where vl: "get_tensor_value l = Inr vl" "eq_truth vl 3 = Inr True" by blast
  from holds_value_eq_truth [OF h(3)] obtain vd
    where vd: "get_tensor_value d = Inr vd" "eq_truth vd 1 = Inr True" by blast
  show "check_is_unfolded_perm p = Inr True"
    using c tr ir vs vl vd
    by (simp add: unfolded_perm_operands [OF ty i] getitem_Cons0 getitem_Cons1 getitem_Cons2
        and_then_Inr py_list_def)
qed

text \<open>
  The part of the rejection that the code does perform: a permutation input that is the
  concatenation of the constant \<open>[1, 0]\<close> with a Range node of start 0, limit 5 and
  step 1 makes the check raise ValueError "Not supported yet".
\<close>

lemma timemajor_wrong_range_raises:
  assumes "type t = ''Transpose''" and "inputs t = x # p # rest"
    and "type p = ''ConcatV2''" and "inputs p = [c, r, axis]"
    and "get_tensor_value c = Inr (Vector [1, 0])"
    and "type r = ''Range''" and "inputs r = [s, l, d]"
    and "holds_value s 0" and "holds_value l 5" and "holds_value d 1"
  shows "check_is_timemajor_transpose t = Inl (ValueError ''Not supported yet'')"
proof -
  from assms(3) have "\<not> is_const p"
    by (simp add: is_const_def)
  from timemajor_not_const [OF assms(1,2) this] unfolded_perm_wrong_range [OF assms(3-10)]
  show ?thesis
    by (simp add: and_then_Inr)
qed

lemma timemajor_wrong_range_example:
  "check_is_timemajor_transpose
     (transpose_of (concat_of (const_of ''prefix'' (Vector [1, 0])) (range_of 0 5 1)))
     = Inl (ValueError ''Not supported yet'')"
  using timemajor_wrong_range_raises
    [of "transpose_of (concat_of (const_of ''prefix'' (Vector [1, 0])) (range_of 0 5 1))"
        example_placeholder "concat_of (const_of ''prefix'' (Vector [1, 0])) (range_of 0 5 1)" "[]"
        "const_of ''prefix'' (Vector [1, 0])" "range_of 0 5 1" "const_of ''axis'' (Scalar 0)"
        "const_of ''start'' (Scalar 0)" "const_of ''limit'' (Scalar 5)" "const_of ''delta'' (Scalar 1)"]
  by (simp add: concat_of_def range_of_def const_of_def transpose_of_def holds_value_def
      get_tensor_value_def is_const_def)

text \<open>
  C3. The claim asks for the explicit failure ValueError "Not supported yet" on every
  non-constant permutation input that is not of the recognised indirect form. The code
  misses it on a Transpose whose permutation input is the concatenation of the constant
  \<open>[1, 0]\<close> with a node that has no inputs: that input is not a constant and not of
  the recognised form, yet the heuristic reads the inputs of the second operand before
  it tests its type, and the check raises IndexError instead of the explicit failure.
\<close>

theorem timemajor_unreadable_operand_raises_IndexError:
  "type (transpose_of (concat_of (const_of ''prefix'' (Vector [1, 0])) example_placeholder))
     = ''Transpose'' \<and>
   inputs (transpose_of (concat_of (const_of ''prefix'' (Vector [1, 0])) example_placeholder))
     = [example_placeholder, concat_of (const_of ''prefix'' (Vector [1, 0])) example_placeholder] \<and>
   \<not> is_const (concat_of (const_of ''prefix'' (Vector [1, 0])) example_placeholder) \<and>
   \<not> unfolded_form (concat_of (const_of ''prefix'' (Vector [1, 0])) example_placeholder) \<and>
   check_is_unfolded_perm (concat_of (const_of ''prefix'' (Vector [1, 0])) example_placeholder)
     = Inl IndexError \<and>
   check_is_timemajor_transpose
     (transpose_of (concat_of (const_of ''prefix'' (Vector [1, 0])) example_placeholder))
     = Inl IndexError"
  by (simp add: check_is_timemajor_transpose_def check_is_unfolded_perm_def unfolded_form_def
      transpose_of_def concat_of_def const_of_def example_placeholder_def
      get_tensor_value_def is_const_def getitem_def and_then_def py_list_def)

lemma timemajor_True_cases:
  "(check_is_timemajor_transpose n = Inr (Some True) \<longleftrightarrow>
      type n = ''Transpose'' \<and>
      (\<exists>x perm rest. inputs n = x # perm # rest \<and>
         (get_tensor_value perm = Inr (Vector [1, 0, 2]) \<or>
          check_is_unfolded_perm perm = Inr True))) \<and>
   (type n \<noteq> ''Transpose'' \<longrightarrow> check_is_timemajor_transpose n = Inr None)"
proof -
  have nt: "check_is_timemajor_transpose n = Inr None" if "type n \<noteq> ''Transpose''"
    using that by (simp add: check_is_timemajor_transpose_def)
  have "check_is_timemajor_transpose n = Inr (Some True) \<longleftrightarrow>
          (\<exists>x perm rest. inputs n = x # perm # rest \<and>
             (get_tensor_value perm = Inr (Vector [1, 0, 2]) \<or>
              check_is_unfolded_perm perm = Inr True))"
    if tr: "type n = ''Transpose''"
  proof
    assume r: "check_is_timemajor_transpose n = Inr (Some True)"
    with tr obtain perm where p: "getitem (inputs n) (Suc 0) = Inr perm"
      by (cases "getitem (inputs n) (Suc 0)")
         (simp_all add: check_is_timemajor_transpose_def and_then_def)
    then obtain x rest where i: "inputs n = x # perm # rest"
      by (auto simp: getitem_1_Inr)
    show "\<exists>x perm rest. inputs n = x # perm # rest \<and>
             (get_tensor_value perm = Inr (Vector [1, 0, 2]) \<or>
              check_is_unfolded_perm perm = Inr True)"
    proof (cases "is_const perm")
      case True
      from r timemajor_const [OF tr i True] obtain v l
        where v: "get_tensor_value perm = Inr v" and l: "py_list v = Inr l"
          and c: "(if l = [1, 0, 2] then Inr (Some True) else Inr None) = (Inr (Some True) :: py_error + bool option)"
        by (auto simp: and_then_eq_Inr)
      from c have "l = [1, 0, 2]"
        by (simp split: if_splits)
      with l have "v = Vector [1, 0, 2]"
        by (cases v) (simp_all add: py_list_def)
      with v i show ?thesis by blast
    next
      case False
      from r timemajor_not_const [OF tr i False]
      have "check_is_unfolded_perm perm = Inr True"
        by (auto simp: and_then_eq_Inr split: if_splits)
      with i show ?thesis by blast
    qed
  next
    assume "\<exists>x perm rest. inputs n = x # perm # rest \<and>
             (get_tensor_value perm = Inr (Vector [1, 0, 2]) \<or>
              check_is_unfolded_perm perm = Inr True)"
    then obtain x perm rest where i: "inputs n = x # perm # rest"
      and d: "get_tensor_value perm = Inr (Vector [1, 0, 2]) \<or>
              check_is_unfolded_perm perm = Inr True"
      by blast
    from d show "check_is_timemajor_transpose n = Inr (Some True)"
    proof
      assume g: "get_tensor_value perm = Inr (Vector [1, 0, 2])"
      then have "is_const perm"
        by (auto simp: get_tensor_value_def split: if_splits)
      from timemajor_const [OF tr i this] g show ?thesis
        by (simp add: and_then_Inr py_list_def)
    next
      assume u: "check_is_unfolded_perm perm = Inr True"
      from timemajor_not_const [OF tr i unfolded_perm_not_const [OF u]] u show ?thesis
        by (simp add: and_then_Inr)
    qed
  qed
  with nt show ?thesis
    by (cases "type n = ''Transpose''") simp_all
qed

text \<open>
  C5. For every node, \<open>check_is_timemajor_transpose\<close> returns true exactly when the
  node is a Transpose whose second input is a constant equal to \<open>[1, 0, 2]\<close> or is of
  the indirect form, the concatenation of the constant \<open>[1, 0]\<close> with a Range node of
  start 2, limit 3 and step 1; for every node that is not a Transpose it returns
  \<open>None\<close>, a false value.
\<close>

theorem timemajor_iff:
  "(check_is_timemajor_transpose n = Inr (Some True) \<longleftrightarrow>
      type n = ''Transpose'' \<and>
      (\<exists>x perm rest. inputs n = x # perm # rest \<and>
         (type perm = ''Const'' \<and> const_value perm = Some (Vector [1, 0, 2]) \<or>
          unfolded_form perm))) \<and>
   (type n \<noteq> ''Transpose'' \<longrightarrow> check_is_timemajor_transpose n = Inr None)"
  using timemajor_True_cases [of n]
  by (simp add: unfolded_perm_iff_form get_tensor_value_Inr)

theorem timemajor_iff_witness:
  "check_is_timemajor_transpose (transpose_of (const_of ''perm'' (Vector [1, 0, 2])))
     = Inr (Some True) \<and>
   check_is_timemajor_transpose
     (transpose_of (concat_of (const_of ''prefix'' (Vector [1, 0])) (range_of 2 3 1)))
     = Inr (Some True) \<and>
   check_is_timemajor_transpose
     (transpose_of (concat_of (const_of ''prefix'' (Vector [1, 0])) (range_of 0 5 1)))
     \<noteq> Inr (Some True) \<and>
   check_is_timemajor_transpose (identity_of ''id'' example_placeholder) = Inr None"
  using timemajor_iff [of "transpose_of (const_of ''perm'' (Vector [1, 0, 2]))"]
        timemajor_iff
          [of "transpose_of (concat_of (const_of ''prefix'' (Vector [1, 0])) (range_of 2 3 1))"]
        timemajor_iff
          [of "transpose_of (concat_of (const_of ''prefix'' (Vector [1, 0])) (range_of 0 5 1))"]
        timemajor_iff [of "identity_of ''id'' example_placeholder"]
  by (simp add: transpose_of_def const_of_def concat_of_def range_of_def identity_of_def
      unfolded_form_def holds_value_def get_tensor_value_def is_const_def)

text \<open>
  C8. \<open>check_is_unfolded_perm\<close> is not total. For every ConcatV2 node with exactly
  three inputs whose first input is a constant equal to \<open>[1, 0]\<close>, the three inputs of
  the second operand and their tensors are read before its type is tested: the function
  raises whenever the second operand does not have three inputs with readable constant
  tensors, and returns false only when it has them and is not a Range node.
\<close>

theorem unfolded_perm_raises:
  assumes "type p = ''ConcatV2''" and "inputs p = [c, r, axis]"
    and "get_tensor_value c = Inr (Vector [1, 0])"
  shows "(\<not> three_const_inputs r \<longrightarrow> (\<exists>e. check_is_unfolded_perm p = Inl e)) \<and>
         (three_const_inputs r \<and> type r \<noteq> ''Range'' \<longrightarrow> check_is_unfolded_perm p = Inr False)"
proof -
  have u: "check_is_unfolded_perm p =
          and_then (getitem (inputs r) 0) (\<lambda>n0.
          and_then (get_tensor_value n0) (\<lambda>range_start.
          and_then (getitem (inputs r) 1) (\<lambda>n1.
          and_then (get_tensor_value n1) (\<lambda>range_limit.
          and_then (getitem (inputs r) 2) (\<lambda>n2.
          and_then (get_tensor_value n2) (\<lambda>range_delta.
          if type r \<noteq> ''Range'' then Inr False
          else
            and_then (eq_truth range_start 2) (\<lambda>b0.
            if \<not> b0 then Inr False
            else
              and_then (eq_truth range_limit 3) (\<lambda>b1.
              if \<not> b1 then Inr False
              else
                and_then (eq_truth range_delta 1) (\<lambda>b2.
                Inr b2)))))))))"
    using assms
    by (simp add: check_is_unfolded_perm_def getitem_Cons0 getitem_Cons1 and_then_Inr py_list_def)
  have a: "\<exists>e. check_is_unfolded_perm p = Inl e" if "\<not> three_const_inputs r"
  proof (cases "inputs r")
    case Nil
    then show ?thesis by (simp add: u getitem_def and_then_Inl)
  next
    case s: (Cons s r1)
    show ?thesis
    proof (cases "get_tensor_value s")
      case (Inl e)
      with s show ?thesis by (simp add: u getitem_Cons0 and_then_Inr and_then_Inl)
    next
      case vs: (Inr vs)
      show ?thesis
      proof (cases r1)
        case Nil
        with s vs show ?thesis by (simp add: u getitem_def and_then_Inl and_then_Inr)
      next
        case l: (Cons l r2)
        show ?thesis
        proof (cases "get_tensor_value l")
          case (Inl e)
          with s vs l show ?thesis
            by (simp add: u getitem_Cons0 getitem_Cons1 and_then_Inr and_then_Inl)
        next
          case vl: (Inr vl)
          show ?thesis
          proof (cases r2)
            case Nil
            with s vs l vl show ?thesis
              by (simp add: u getitem_def and_then_Inl and_then_Inr)
          next
            case d: (Cons d r3)
            with that s l vs vl obtain e where "get_tensor_value d = Inl e"
              by (cases "get_tensor_value d") (simp_all add: three_const_inputs_def)
            with s vs l vl d show ?thesis
              by (simp add: u getitem_Cons0 getitem_Cons1 getitem_Cons2 and_then_Inr and_then_Inl)
          qed
        qed
      qed
    qed
  qed
  have b: "check_is_unfolded_perm p = Inr False" if "three_const_inputs r" "type r \<noteq> ''Range''"
  proof -
    from that(1) obtain s l d r3 where i: "inputs r = s # l # d # r3"
      by (auto simp: three_const_inputs_def split: list.splits)
    with that(1) obtain vs vl vd where
      "get_tensor_value s = Inr vs" "get_tensor_value l = Inr vl" "get_tensor_value d = Inr vd"
      by (cases "get_tensor_value s"; cases "get_tensor_value l"; cases "get_tensor_value d")
         (simp_all add: three_const_inputs_def)
    with i that(2) show ?thesis
      by (simp add: u getitem_Cons0 getitem_Cons1 getitem_Cons2 and_then_Inr)
  qed
  from a b show ?thesis by blast
qed

theorem unfolded_perm_raises_witness:
  "check_is_unfolded_perm (concat_of (const_of ''prefix'' (Vector [1, 0])) example_placeholder)
     = Inl IndexError \<and>
   check_is_unfolded_perm (concat_of (const_of ''prefix'' (Vector [1, 0]))
       (Node ''sub'' ''Sub'' [const_of ''a'' (Scalar 2), const_of ''b'' (Scalar 3),
                              const_of ''c'' (Scalar 1)] 6 None))
     = Inr False"
proof -
  let ?c = "const_of ''prefix'' (Vector [1, 0])"
  let ?r = "Node ''sub'' ''Sub'' [const_of ''a'' (Scalar 2), const_of ''b'' (Scalar 3),
                              const_of ''c'' (Scalar 1)] 6 None"
  have g: "get_tensor_value ?c = Inr (Vector [1, 0])"
    by (simp add: const_of_def get_tensor_value_def is_const_def)
  have e: "check_is_unfolded_perm (concat_of ?c example_placeholder) = Inl IndexError"
    by (simp add: check_is_unfolded_perm_def concat_of_def const_of_def example_placeholder_def
        get_tensor_value_def is_const_def getitem_def and_then_def py_list_def)
  have n3: "\<not> three_const_inputs example_placeholder"
    by (simp add: three_const_inputs_def example_placeholder_def)
  have t3: "three_const_inputs ?r \<and> type ?r \<noteq> ''Range''"
    by (simp add: three_const_inputs_def const_of_def get_tensor_value_def is_const_def)
  from unfolded_perm_raises [of "concat_of ?c example_placeholder" ?c example_placeholder
         "const_of ''axis'' (Scalar 0)", OF _ _ g]
       unfolded_perm_raises [of "concat_of ?c ?r" ?c ?r "const_of ''axis'' (Scalar 0)", OF _ _ g]
       n3 t3 e
  show ?thesis
    by (simp add: concat_of_def)
qed

subsection \<open>Cell patterns\<close>

text \<open>
  C6. The LSTM-cell pattern is rooted at a Mul captured as \<open>ht\<close>. Each of the captures
  \<open>ot\<close>, \<open>ft\<close>, \<open>it\<close> and \<open>gt\<close> names one pattern object below the root, a
  Sigmoid for the three gates and a Tanh for the cell candidate. The objects \<open>ot\<close>,
  \<open>it\<close> and \<open>gt\<close> have the object \<open>xc_pattern\<close> as their only child; \<open>ft\<close> has
  one child, an Add of \<open>xc_pattern\<close> and the wildcard \<open>ft_bias\<close>. It is one and the
  same object in all four places: the store holds a single Split. That object is a
  Split of a Const and a BiasAdd (\<open>bias_add\<close>) of a MatMul, over the \<open>ConcatV2|Concat\<close>
  captured as \<open>xh\<close> and an Enter of the wildcard \<open>cell_kernel\<close>, and of an Enter of
  the wildcard \<open>cell_bias\<close>.
\<close>

theorem lstmcell_pattern_shares_xc:
  "op_type (pattern_store ! lstmcell_pattern) = ''Mul'' \<and>
   capture (pattern_store ! lstmcell_pattern) = Some ''ht'' \<and>
   map (\<lambda>g. length (captured g)) [''ot'', ''ft'', ''it'', ''gt''] = [1, 1, 1, 1] \<and>
   map (\<lambda>g. op_type (pattern_store ! hd (captured g))) [''ot'', ''ft'', ''it'', ''gt'']
     = [''Sigmoid'', ''Sigmoid'', ''Sigmoid'', ''Tanh''] \<and>
   map (\<lambda>g. reaches lstmcell_pattern (hd (captured g))) [''ot'', ''ft'', ''it'', ''gt'']
     = [True, True, True, True] \<and>
   map (\<lambda>g. children (pattern_store ! hd (captured g))) [''ot'', ''it'', ''gt'']
     = [[xc_pattern], [xc_pattern], [xc_pattern]] \<and>
   map (\<lambda>a. (op_type (pattern_store ! a), children (pattern_store ! a)))
       (children (pattern_store ! hd (captured ''ft'')))
     = [(''Add'', [xc_pattern, hd (captured ''ft_bias'')])] \<and>
   map (\<lambda>g. reaches (hd (captured g)) xc_pattern) [''ot'', ''ft'', ''it'', ''gt'']
     = [True, True, True, True] \<and>
   of_type ''Split'' = [xc_pattern] \<and>
   tree_at xc_pattern =
      Pattern ''Split'' None [
        Pattern ''Const'' None [],
        Pattern ''BiasAdd'' (Some ''bias_add'') [
          Pattern ''MatMul'' None [
            Pattern ''ConcatV2|Concat'' (Some ''xh'') [],
            Pattern ''Enter'' None [Pattern ''*'' (Some ''cell_kernel'') []]],
          Pattern ''Enter'' None [Pattern ''*'' (Some ''cell_bias'') []]]]"
  by code_simp

text \<open>
  C7. The pattern table has an entry for the GRU cell with no pattern: \<open>get_pattern\<close>
  returns \<open>None\<close> for GRUCell, and for LSTMCell it returns the LSTM-cell pattern, the
  Mul captured as \<open>ht\<close>. The GRU test class has one test, which raises
  ValueError "Not implemented".
\<close>

theorem get_pattern_gru_is_none:
  "get_pattern GRUCell = Inr None \<and>
   get_pattern LSTMCell = Inr (Some lstmcell_pattern) \<and>
   map (\<lambda>p. (op_type (pattern_store ! p), capture (pattern_store ! p)))
       [lstmcell_pattern] = [(''Mul'', Some ''ht'')] \<and>
   map fst GRUTests = [''test_test_single_dynamic_gru_state_is_tuple''] \<and>
   map snd GRUTests = [Inl (ValueError ''Not implemented'')]"
  by code_simp

end
